theory Spec2Isabelle
  imports Complex_Main "HOL-Library.Word" "HOL-Library.Sublist"
begin

section \<open>JavaScript values used by server.js\<close>

subsection \<open>Strings\<close>

text \<open>
  A JavaScript string is a sequence of UTF-16 code units; \<open>length\<close> counts them.
  \<open>js\<close> turns an ASCII literal of the source into such a string.
\<close>

type_synonym code_unit = "16 word"

type_synonym jsstring = "code_unit list"

definition js :: "string \<Rightarrow> jsstring" where
  "js s = map of_char s"

text \<open>
  \<open>String.prototype.trim\<close> removes white space and line terminators at both ends:
  tab, line feed, vertical tab, form feed, carriage return, space, no-break space,
  U+1680, U+2000 to U+200A, U+2028, U+2029, U+202F, U+205F, U+3000 and U+FEFF.
\<close>

definition is_ws :: "code_unit \<Rightarrow> bool" where
  "is_ws c =
     (c \<in> set [0x0009, 0x000A, 0x000B, 0x000C, 0x000D, 0x0020, 0x00A0, 0x1680,
                0x2000, 0x2001, 0x2002, 0x2003, 0x2004, 0x2005, 0x2006, 0x2007,
                0x2008, 0x2009, 0x200A, 0x2028, 0x2029, 0x202F, 0x205F, 0x3000, 0xFEFF])"

definition trim :: "jsstring \<Rightarrow> jsstring" where
  "trim s = rev (dropWhile is_ws (rev (dropWhile is_ws s)))"

subsection \<open>Numbers\<close>

text \<open>
  A JavaScript number is a binary64 value: \<open>NaN\<close>, an infinity, or a finite value,
  written here as the rational it denotes. The sign of zero is not modelled: no
  operation of the server tells the two zeros apart.
\<close>

datatype jsnum = NaN | PInf | NInf | Fin rat

text \<open>
  Rounding a rational to binary64, to nearest with ties to even. \<open>bit_length n\<close> is
  the number of binary digits of \<open>n\<close>, so that the binary exponent of \<open>p / d\<close> is
  \<open>bit_length p - bit_length d\<close> or one less. With binary exponent \<open>e\<close> the
  representable values are the multiples \<open>n * 2 ^ (e - 52)\<close>, \<open>n \<le> 2 ^ 53\<close>; below
  \<open>2 ^ - 1022\<close> the spacing stays \<open>2 ^ - 1074\<close> (subnormal numbers, and underflow
  to 0); a result that reaches \<open>2 ^ 1024\<close>, which is \<open>n = 2 ^ 53\<close> at the exponent
  1023, is an infinity.
\<close>

function bit_length :: "int \<Rightarrow> nat" where
  "bit_length n = (if n \<le> 0 then 0 else Suc (bit_length (n div 2)))"
  by pat_completeness auto
termination
  by (relation "measure nat") auto

declare bit_length.simps [simp del]

definition pow2 :: "int \<Rightarrow> rat" where
  "pow2 k = (if 0 \<le> k then 2 ^ nat k else 1 / 2 ^ nat (- k))"

definition floor_log2 :: "rat \<Rightarrow> int" where
  "floor_log2 a =
     (let k = int (bit_length (fst (quotient_of a)))
              - int (bit_length (snd (quotient_of a)))
      in if pow2 k \<le> a then k else k - 1)"

definition round_half_even :: "rat \<Rightarrow> int" where
  "round_half_even x =
     (let n = \<lfloor>x\<rfloor>; f = x - of_int n
      in if f < 1 / 2 then n
         else if 1 / 2 < f then n + 1
         else if even n then n else n + 1)"

definition round64 :: "rat \<Rightarrow> jsnum" where
  "round64 q =
     (if q = 0 then Fin 0
      else
        let a = \<bar>q\<bar>;
            e = max (floor_log2 a) (- 1022);
            ulp = pow2 (e - 52);
            n = round_half_even (a / ulp)
        in if 1024 \<le> e \<or> (e = 1023 \<and> n = 2 ^ 53)
           then (if q < 0 then NInf else PInf)
           else Fin (if q < 0 then - (of_int n * ulp) else of_int n * ulp))"

text \<open>\<open>a + b\<close> on numbers: the exact sum of two finite values, rounded.\<close>

fun js_add :: "jsnum \<Rightarrow> jsnum \<Rightarrow> jsnum" where
  "js_add NaN _ = NaN"
| "js_add _ NaN = NaN"
| "js_add PInf NInf = NaN"
| "js_add NInf PInf = NaN"
| "js_add PInf _ = PInf"
| "js_add _ PInf = PInf"
| "js_add NInf _ = NInf"
| "js_add _ NInf = NInf"
| "js_add (Fin a) (Fin b) = round64 (a + b)"

definition isNaN :: "jsnum \<Rightarrow> bool" where
  "isNaN n = (n = NaN)"

text \<open>A number as \<open>JSON.stringify\<close> writes it: a non-finite number becomes \<open>null\<close>.\<close>

datatype json_num = JsonNull | JsonNum rat

fun to_json :: "jsnum \<Rightarrow> json_num" where
  "to_json (Fin q) = JsonNum q"
| "to_json _ = JsonNull"

subsection \<open>\<open>Number(s)\<close> on a string\<close>

text \<open>
  The value of a digit in a base up to 16, if the code unit is a digit of that base.
\<close>

definition digit_val :: "int \<Rightarrow> code_unit \<Rightarrow> int option" where
  "digit_val base c =
     (let n = uint c;
          v = (if 48 \<le> n \<and> n \<le> 57 then Some (n - 48)
               else if 97 \<le> n \<and> n \<le> 102 then Some (n - 87)
               else if 65 \<le> n \<and> n \<le> 70 then Some (n - 55)
               else None)
      in case v of None \<Rightarrow> None | Some d \<Rightarrow> (if d < base then Some d else None))"

definition is_digit :: "code_unit \<Rightarrow> bool" where
  "is_digit c = (digit_val 10 c \<noteq> None)"

fun digits_val :: "int \<Rightarrow> int \<Rightarrow> jsstring \<Rightarrow> int option" where
  "digits_val base acc [] = Some acc"
| "digits_val base acc (c # cs) =
     (case digit_val base c of
        None \<Rightarrow> None
      | Some d \<Rightarrow> digits_val base (acc * base + d) cs)"

text \<open>A literal with a radix prefix: at least one digit, no sign, no fraction.\<close>

definition radix_literal :: "int \<Rightarrow> jsstring \<Rightarrow> jsnum" where
  "radix_literal base ds =
     (if ds = [] then NaN
      else case digits_val base 0 ds of None \<Rightarrow> NaN | Some n \<Rightarrow> round64 (of_int n))"

text \<open>The exponent part of a decimal literal, after the \<open>e\<close>: an optional sign and digits.\<close>

definition exponent_part :: "jsstring \<Rightarrow> int option" where
  "exponent_part s =
     (let neg = (s \<noteq> [] \<and> hd s = of_char CHR ''-'');
          ds = (if s \<noteq> [] \<and> (hd s = of_char CHR ''-'' \<or> hd s = of_char CHR ''+'')
                then tl s else s)
      in if ds = [] then None
         else case digits_val 10 0 ds of
                None \<Rightarrow> None
              | Some n \<Rightarrow> Some (if neg then - n else n))"

definition scale10 :: "rat \<Rightarrow> int \<Rightarrow> rat" where
  "scale10 q e = (if 0 \<le> e then q * 10 ^ nat e else q / 10 ^ nat (- e))"

text \<open>
  The mathematical value of an unsigned decimal literal: digits, an optional fraction,
  an optional exponent; at least one digit before or after the point.
\<close>

definition decimal_literal :: "jsstring \<Rightarrow> rat option" where
  "decimal_literal s =
     (let ip = takeWhile is_digit s;
          r1 = dropWhile is_digit s;
          fp = (if r1 \<noteq> [] \<and> hd r1 = of_char CHR ''.''
                then takeWhile is_digit (tl r1) else []);
          r2 = (if r1 \<noteq> [] \<and> hd r1 = of_char CHR ''.''
                then dropWhile is_digit (tl r1) else r1)
      in if ip = [] \<and> fp = [] then None
         else case (digits_val 10 0 ip, digits_val 10 0 fp) of
                (Some i, Some f) \<Rightarrow>
                  (let m = of_int i + of_int f / 10 ^ length fp
                   in if r2 = [] then Some m
                      else if hd r2 = of_char CHR ''e'' \<or> hd r2 = of_char CHR ''E''
                           then (case exponent_part (tl r2) of
                                   None \<Rightarrow> None
                                 | Some e \<Rightarrow> Some (scale10 m e))
                           else None)
              | _ \<Rightarrow> None)"

text \<open>
  \<open>Number(s)\<close> for a string \<open>s\<close>: white space is trimmed, the empty string is 0,
  then a radix literal, a signed \<open>Infinity\<close> or a signed decimal literal, whose
  mathematical value is rounded to binary64 (so a literal too large becomes an
  infinity and one too small becomes 0); anything else is \<open>NaN\<close>.
\<close>

definition StringToNumber :: "jsstring \<Rightarrow> jsnum" where
  "StringToNumber s =
     (let t = trim s in
      if t = [] then Fin 0
      else if take 2 t = js ''0x'' \<or> take 2 t = js ''0X'' then radix_literal 16 (drop 2 t)
      else if take 2 t = js ''0o'' \<or> take 2 t = js ''0O'' then radix_literal 8 (drop 2 t)
      else if take 2 t = js ''0b'' \<or> take 2 t = js ''0B'' then radix_literal 2 (drop 2 t)
      else
        let neg = (hd t = of_char CHR ''-'');
            r = (if hd t = of_char CHR ''-'' \<or> hd t = of_char CHR ''+'' then tl t else t)
        in if r = js ''Infinity'' then (if neg then NInf else PInf)
           else case decimal_literal r of
                  None \<Rightarrow> NaN
                | Some q \<Rightarrow> round64 (if neg then - q else q))"

subsection \<open>Values of a request body\<close>

text \<open>
  What a parsed request body can hold in one field: a primitive value or an array
  (a JSON array, or a form field sent more than once). \<open>JUndefined\<close> is the value of
  a field that is absent. Objects are outside the model.
\<close>

datatype jsval =
    JUndefined
  | JNull
  | JBool bool
  | JNum jsnum
  | JStr jsstring
  | JArr "jsval list"

text \<open>\<open>ToBoolean\<close>: what \<open>!v\<close>, \<open>v || d\<close> and \<open>if (v)\<close> test.\<close>

fun truthy_num :: "jsnum \<Rightarrow> bool" where
  "truthy_num NaN = False"
| "truthy_num (Fin q) = (q \<noteq> 0)"
| "truthy_num _ = True"

fun truthy :: "jsval \<Rightarrow> bool" where
  "truthy JUndefined = False"
| "truthy JNull = False"
| "truthy (JBool b) = b"
| "truthy (JNum n) = truthy_num n"
| "truthy (JStr s) = (s \<noteq> [])"
| "truthy (JArr vs) = True"

text \<open>\<open>a || d\<close> on values.\<close>

definition js_or :: "jsval \<Rightarrow> jsval \<Rightarrow> jsval" where
  "js_or a d = (if truthy a then a else d)"

text \<open>
  \<open>Number(v)\<close>. An array is first turned into a string, its elements joined by
  commas: the empty array gives the empty string, hence 0; an array of one element
  gives the string of that element (empty for \<open>null\<close> and \<open>undefined\<close>, and the
  digits of a number, which read back as that number); with two elements or more the
  string has a comma and is no number.
\<close>

fun Number :: "jsval \<Rightarrow> jsnum" where
  "Number JUndefined = NaN"
| "Number JNull = Fin 0"
| "Number (JBool b) = Fin (if b then 1 else 0)"
| "Number (JNum n) = n"
| "Number (JStr s) = StringToNumber s"
| "Number (JArr []) = Fin 0"
| "Number (JArr [v]) =
     (case v of
        JUndefined \<Rightarrow> Fin 0
      | JNull \<Rightarrow> Fin 0
      | JBool b \<Rightarrow> NaN
      | JNum n \<Rightarrow> n
      | JStr s \<Rightarrow> StringToNumber s
      | JArr vs \<Rightarrow> Number (JArr vs))"
| "Number (JArr (v # w # vs)) = NaN"

text \<open>
  A value as it is after \<open>JSON.stringify\<close> and \<open>JSON.parse\<close>, which is how it
  reaches a file and a response: a non-finite number becomes \<open>null\<close>, and so does
  \<open>undefined\<close> inside an array.
\<close>

fun jsonify :: "jsval \<Rightarrow> jsval" where
  "jsonify (JNum (Fin q)) = JNum (Fin q)"
| "jsonify (JNum _) = JNull"
| "jsonify (JArr vs) = JArr (map (\<lambda>v. if v = JUndefined then JNull else jsonify v) vs)"
| "jsonify v = v"

text \<open>A \<open>TypeError\<close> thrown by the handler's own code, such as \<open>v.trim()\<close> on a
  value that has no such method.\<close>

datatype js_error = TypeError

section \<open>Configuration\<close>

text \<open>
  \<open>ADMIN_PASSWORD\<close> and \<open>PAYMENT_PHONE\<close> are read once from the environment, with
  the defaults of the source; an empty variable is falsy and gives the default too.
\<close>

record config =
  ADMIN_PASSWORD :: jsstring
  PAYMENT_PHONE :: jsstring

definition env_or :: "jsstring option \<Rightarrow> jsstring \<Rightarrow> jsstring" where
  "env_or v d = (case v of None \<Rightarrow> d | Some s \<Rightarrow> (if s = [] then d else s))"

definition load_config :: "jsstring option \<Rightarrow> jsstring option \<Rightarrow> config" where
  "load_config env_password env_phone =
     \<lparr>ADMIN_PASSWORD = env_or env_password (js ''Ben&4002''),
      PAYMENT_PHONE = env_or env_phone (js ''+243831401205'')\<rparr>"

definition MAX_IMAGES :: nat where
  "MAX_IMAGES = 5"

section \<open>Records of the four collections\<close>

text \<open>The three values of \<open>statut\<close>: \<open>"en_attente"\<close>, \<open>"valide"\<close>, \<open>"refuse"\<close>.\<close>

datatype statut = En_attente | Valide | Refuse

text \<open>
  Field names carry a prefix where two record types of the source share a name
  (\<open>id\<close>, \<open>statut\<close>, \<open>montant\<close>, \<open>date\<close>, \<open>refuseReason\<close>, \<open>maisons\<close>). A field
  that a record may lack (\<open>refuseReason\<close>) is an option. A field that takes over a
  value of the request as it is has the type of such values. Numbers are held as JSON
  writes them, since both the files and the response bodies are JSON.
\<close>

record maison =
  m_id :: jsstring
  titre :: jsstring
  description :: jsval
  prix :: json_num
  ville :: jsval
  commune :: jsval
  quartier :: jsval
  garantie :: jsval
  localisation :: jsval
  images :: "jsstring list"
  auteur :: jsval
  m_statut :: statut
  datePublication :: jsstring
  m_refuseReason :: "jsval option"

record utilisateur =
  u_id :: jsstring
  nom :: jsstring
  telephone :: jsstring
  u_maisons :: "jsstring list"

record paiement =
  p_id :: jsstring
  p_utilisateur :: jsval
  p_maison :: jsval
  p_montant :: json_num
  reference :: jsval
  methode :: jsval
  p_statut :: statut
  p_date :: jsstring
  receptionPhone :: jsstring
  p_refuseReason :: "jsval option"

record transaction =
  t_id :: jsstring
  paiementId :: jsstring
  t_montant :: json_num
  t_date :: jsstring

text \<open>
  A line of \<open>logs/admin-actions.log\<close>: the time stamp, the action, and the id the
  details name (the rest of the free text of the details is not modelled).
\<close>

record log_line =
  l_when :: jsstring
  l_action :: string
  l_subject :: jsval

text \<open>
  The persistent state: the four JSON files as the lists they hold, the files that exist
  under the base directory (by their path from it, \<open>/uploads/<filename>\<close>), and the
  admin log. Failures of the file system itself are not modelled.
\<close>

record store =
  maisons :: "maison list"
  utilisateurs :: "utilisateur list"
  paiements :: "paiement list"
  transactions :: "transaction list"
  files :: "jsstring set"
  admin_log :: "log_line list"

text \<open>\<open>ensureJsonFile\<close> starts every collection as \<open>[]\<close>.\<close>

definition init_store :: store where
  "init_store =
     \<lparr>maisons = [], utilisateurs = [], paiements = [], transactions = [],
      files = {}, admin_log = []\<rparr>"

section \<open>Requests and responses\<close>

text \<open>
  The fields of the body of \<open>POST /api/maisons\<close> that the handler reads. From a
  multipart form each is a string, absent, or an array when the field was sent more than
  once; from a JSON body each is any value.
\<close>

record maison_body =
  b_titre :: jsval
  b_description :: jsval
  b_prix :: jsval
  b_ville :: jsval
  b_commune :: jsval
  b_quartier :: jsval
  b_garantie :: jsval
  b_localisation :: jsval
  b_auteur :: jsval

text \<open>
  A file of \<open>req.files\<close>, already written to the upload directory by multer under the
  name multer chose; \<open>f.path\<close> is that name inside the upload directory.
\<close>

record upload =
  filename :: jsstring

definition upload_url :: "upload \<Rightarrow> jsstring" where
  "upload_url f = js ''/uploads/'' @ filename f"

definition file_path :: "upload \<Rightarrow> jsstring" where
  "file_path f = js ''/uploads/'' @ filename f"

record stats =
  totalMaisons :: nat
  totalUsers :: nat
  totalPaiements :: nat
  revenusTotaux :: jsnum

text \<open>
  A response is its HTTP status and what its body carries beside the message (the
  message texts are not modelled; \<open>success\<close> is true exactly for status 200).
\<close>

datatype payload =
    NoPayload
  | Errors "string list"
  | MaisonP maison
  | MaisonsP "maison list"
  | UtilisateurP utilisateur
  | PaiementP paiement
  | StatsP stats

datatype reply = Reply nat payload

section \<open>Helpers\<close>

text \<open>\<open>process.env.X || d\<close> and \<open>req.headers.authorization || ""\<close>: on an optional
  string, the empty string is falsy.\<close>

definition str_or :: "jsstring option \<Rightarrow> jsstring \<Rightarrow> jsstring" where
  "str_or v d = (case v of None \<Rightarrow> d | Some s \<Rightarrow> (if s = [] then d else s))"

text \<open>
  \<open>xs.find(P)\<close> returns the first element that satisfies \<open>P\<close>, and an assignment to
  a field of the element found changes that element of the array.
\<close>

fun update_first :: "('a \<Rightarrow> bool) \<Rightarrow> ('a \<Rightarrow> 'a) \<Rightarrow> 'a list \<Rightarrow> 'a list" where
  "update_first P f [] = []"
| "update_first P f (x # xs) = (if P x then f x # xs else x # update_first P f xs)"

definition adminAuth :: "config \<Rightarrow> jsstring option \<Rightarrow> bool" where
  "adminAuth cfg authorization =
     (let key = trim (str_or authorization [])
      in \<not> (key = [] \<or> key \<noteq> ADMIN_PASSWORD cfg))"

definition logAdmin :: "jsstring \<Rightarrow> string \<Rightarrow> jsval \<Rightarrow> store \<Rightarrow> store" where
  "logAdmin now act subj s =
     s\<lparr>admin_log := admin_log s @ [\<lparr>l_when = now, l_action = act, l_subject = subj\<rparr>]\<rparr>"

text \<open>
  \<open>!v || v.trim().length < n\<close>: a falsy value fails the test at once; a string is
  trimmed and measured; any other truthy value has no \<open>trim\<close> method and the call
  throws.
\<close>

definition missing_or_short :: "jsval \<Rightarrow> nat \<Rightarrow> js_error + bool" where
  "missing_or_short v n =
     (if \<not> truthy v then Inr True
      else case v of
             JStr s \<Rightarrow> Inr (length (trim s) < n)
           | _ \<Rightarrow> Inl TypeError)"

text \<open>
  The five tests run in the order of the source, and the first one that throws ends
  the function; the test of \<open>prix\<close> does not throw.
\<close>

definition validateMaisonFields :: "maison_body \<Rightarrow> js_error + string list" where
  "validateMaisonFields body =
     (case missing_or_short (b_titre body) 3 of
        Inl e \<Rightarrow> Inl e
      | Inr bad_titre \<Rightarrow>
     (let bad_prix = (\<not> truthy (b_prix body) \<or> isNaN (Number (b_prix body))) in
      case missing_or_short (b_ville body) 2 of
        Inl e \<Rightarrow> Inl e
      | Inr bad_ville \<Rightarrow>
     (case missing_or_short (b_commune body) 1 of
        Inl e \<Rightarrow> Inl e
      | Inr bad_commune \<Rightarrow>
     (case missing_or_short (b_quartier body) 1 of
        Inl e \<Rightarrow> Inl e
      | Inr bad_quartier \<Rightarrow>
          Inr ((if bad_titre then [''titre (min 3)''] else [])
               @ (if bad_prix then [''prix (nombre)''] else [])
               @ (if bad_ville then [''ville''] else [])
               @ (if bad_commune then [''commune''] else [])
               @ (if bad_quartier then [''quartier''] else []))))))"

section \<open>Public routes\<close>

text \<open>\<open>GET /api/maisons\<close>\<close>

definition get_maisons :: "store \<Rightarrow> reply \<times> store" where
  "get_maisons s = (Reply 200 (MaisonsP (filter (\<lambda>m. m_statut m = Valide) (maisons s))), s)"

text \<open>
  \<open>POST /api/maisons\<close>. By the time the handler runs multer has written the files of
  the request (none for a body that is not a multipart form), so the handler starts from
  the store with them in place. \<open>uuid\<close> is the result of \<open>uuidv4()\<close> and \<open>now\<close>
  that of \<open>new Date().toISOString()\<close>. Whatever the body of the handler throws is
  caught and answered with status 500; nothing has been written or removed by then.
\<close>

definition multer_store :: "upload list \<Rightarrow> store \<Rightarrow> store" where
  "multer_store fs s = s\<lparr>files := files s \<union> set (map file_path fs)\<rparr>"

definition post_maisons ::
  "jsstring \<Rightarrow> jsstring \<Rightarrow> maison_body \<Rightarrow> upload list \<Rightarrow> store \<Rightarrow> reply \<times> store" where
  "post_maisons uuid now body fs s0 =
     (let s = multer_store fs s0 in
      case validateMaisonFields body of
        Inl e \<Rightarrow> (Reply 500 NoPayload, s)
      | Inr validation \<Rightarrow>
          if validation \<noteq> []
          then (Reply 400 (Errors validation),
                s\<lparr>files := files s - set (map file_path fs)\<rparr>)
          else
            case b_titre body of
              JStr t \<Rightarrow>
                (let imgs = map upload_url (take MAX_IMAGES fs);
                     newMaison =
                       \<lparr>m_id = uuid,
                        titre = trim t,
                        description = jsonify (js_or (b_description body) (JStr [])),
                        prix = to_json (Number (b_prix body)),
                        ville = jsonify (b_ville body),
                        commune = jsonify (b_commune body),
                        quartier = jsonify (b_quartier body),
                        garantie = jsonify (js_or (b_garantie body) (JStr [])),
                        localisation = jsonify (js_or (b_localisation body) (JStr [])),
                        images = imgs,
                        auteur = jsonify (js_or (b_auteur body) JNull),
                        m_statut = En_attente,
                        datePublication = now,
                        m_refuseReason = None\<rparr>
                 in (Reply 200 (MaisonP newMaison), s\<lparr>maisons := maisons s @ [newMaison]\<rparr>))
            | _ \<Rightarrow> (Reply 500 NoPayload, s))"

text \<open>
  \<open>POST /api/utilisateurs\<close>. \<open>nom.trim()\<close> on a truthy value that is not a string
  throws, which Express answers with status 500.
\<close>

definition post_utilisateurs :: "jsstring \<Rightarrow> jsval \<Rightarrow> jsval \<Rightarrow> store \<Rightarrow> reply \<times> store" where
  "post_utilisateurs uuid nomv telv s =
     (if \<not> truthy nomv \<or> \<not> truthy telv then (Reply 400 NoPayload, s)
      else case (nomv, telv) of
             (JStr n, JStr t) \<Rightarrow>
               (let user = \<lparr>u_id = uuid, nom = trim n, telephone = trim t, u_maisons = []\<rparr>
                in (Reply 200 (UtilisateurP user), s\<lparr>utilisateurs := utilisateurs s @ [user]\<rparr>))
           | _ \<Rightarrow> (Reply 500 NoPayload, s))"

text \<open>\<open>POST /api/paiements\<close>\<close>

definition post_paiements ::
  "config \<Rightarrow> jsstring \<Rightarrow> jsstring \<Rightarrow> jsval \<Rightarrow> jsval \<Rightarrow> jsval \<Rightarrow> jsval \<Rightarrow> jsval \<Rightarrow> store
     \<Rightarrow> reply \<times> store" where
  "post_paiements cfg uuid now utilisateurId maisonId montant ref meth s =
     (if \<not> truthy utilisateurId \<or> \<not> truthy maisonId \<or> \<not> truthy montant
      then (Reply 400 NoPayload, s)
      else
        let p = \<lparr>p_id = uuid,
                 p_utilisateur = jsonify utilisateurId,
                 p_maison = jsonify maisonId,
                 p_montant = to_json (Number montant),
                 reference = jsonify (js_or ref JNull),
                 methode = jsonify (js_or meth (JStr (js ''mobile_money''))),
                 p_statut = En_attente,
                 p_date = now,
                 receptionPhone = PAYMENT_PHONE cfg,
                 p_refuseReason = None\<rparr>
        in (Reply 200 (PaiementP p), s\<lparr>paiements := paiements s @ [p]\<rparr>))"

section \<open>Admin routes\<close>

text \<open>
  Every admin route runs \<open>adminAuth\<close> first (status 403), then asks for the id
  (status 400), then looks the record up (status 404). \<open>x.id === id\<close> compares a
  stored id, a string, with the value of the body: it holds only for that same string.
\<close>

definition same_id :: "jsstring \<Rightarrow> jsval \<Rightarrow> bool" where
  "same_id stored idv = (JStr stored = idv)"

text \<open>\<open>POST /api/admin/validerMaison\<close>\<close>

definition valider_maison ::
  "config \<Rightarrow> jsstring option \<Rightarrow> jsstring \<Rightarrow> jsval \<Rightarrow> store \<Rightarrow> reply \<times> store" where
  "valider_maison cfg authorization now idv s =
     (if \<not> adminAuth cfg authorization then (Reply 403 NoPayload, s)
      else if \<not> truthy idv then (Reply 400 NoPayload, s)
      else case find (\<lambda>x. same_id (m_id x) idv) (maisons s) of
             None \<Rightarrow> (Reply 404 NoPayload, s)
           | Some m \<Rightarrow>
               (Reply 200 (MaisonP (m\<lparr>m_statut := Valide\<rparr>)),
                logAdmin now ''VALIDER_MAISON'' idv
                  (s\<lparr>maisons := update_first (\<lambda>x. same_id (m_id x) idv)
                                   (\<lambda>x. x\<lparr>m_statut := Valide\<rparr>) (maisons s)\<rparr>)))"

text \<open>\<open>POST /api/admin/refuserMaison\<close>\<close>

definition refuser_maison ::
  "config \<Rightarrow> jsstring option \<Rightarrow> jsstring \<Rightarrow> jsval \<Rightarrow> jsval \<Rightarrow> store \<Rightarrow> reply \<times> store" where
  "refuser_maison cfg authorization now idv raison s =
     (if \<not> adminAuth cfg authorization then (Reply 403 NoPayload, s)
      else if \<not> truthy idv then (Reply 400 NoPayload, s)
      else case find (\<lambda>x. same_id (m_id x) idv) (maisons s) of
             None \<Rightarrow> (Reply 404 NoPayload, s)
           | Some m \<Rightarrow>
               (let upd = (\<lambda>x. x\<lparr>m_statut := Refuse,
                                 m_refuseReason := Some (jsonify (js_or raison (JStr [])))\<rparr>)
                in (Reply 200 (MaisonP (upd m)),
                    logAdmin now ''REFUSER_MAISON'' idv
                      (s\<lparr>maisons := update_first (\<lambda>x. same_id (m_id x) idv) upd
                                       (maisons s)\<rparr>))))"

text \<open>
  \<open>POST /api/admin/supprimerMaison\<close>: the images of the record found are removed from
  the disk where they exist, then every record with that id is filtered out.
\<close>

definition supprimer_maison ::
  "config \<Rightarrow> jsstring option \<Rightarrow> jsstring \<Rightarrow> jsval \<Rightarrow> store \<Rightarrow> reply \<times> store" where
  "supprimer_maison cfg authorization now idv s =
     (if \<not> adminAuth cfg authorization then (Reply 403 NoPayload, s)
      else if \<not> truthy idv then (Reply 400 NoPayload, s)
      else case find (\<lambda>x. same_id (m_id x) idv) (maisons s) of
             None \<Rightarrow> (Reply 404 NoPayload, s)
           | Some m \<Rightarrow>
               (Reply 200 NoPayload,
                logAdmin now ''SUPPRIMER_MAISON'' idv
                  (s\<lparr>files := files s - set (images m),
                     maisons := filter (\<lambda>x. \<not> same_id (m_id x) idv) (maisons s)\<rparr>)))"

text \<open>
  \<open>POST /api/admin/validerPaiement\<close>: the payment found gets \<open>statut = "valide"\<close>
  and a transaction is pushed; \<open>uuid\<close> is the id \<open>uuidv4()\<close> gives the transaction.
\<close>

definition valider_paiement ::
  "config \<Rightarrow> jsstring option \<Rightarrow> jsstring \<Rightarrow> jsstring \<Rightarrow> jsval \<Rightarrow> store \<Rightarrow> reply \<times> store" where
  "valider_paiement cfg authorization uuid now paiementIdv s =
     (if \<not> adminAuth cfg authorization then (Reply 403 NoPayload, s)
      else if \<not> truthy paiementIdv then (Reply 400 NoPayload, s)
      else case find (\<lambda>x. same_id (p_id x) paiementIdv) (paiements s) of
             None \<Rightarrow> (Reply 404 NoPayload, s)
           | Some p \<Rightarrow>
               (Reply 200 (PaiementP (p\<lparr>p_statut := Valide\<rparr>)),
                logAdmin now ''VALIDER_PAIEMENT'' paiementIdv
                  (s\<lparr>paiements := update_first (\<lambda>x. same_id (p_id x) paiementIdv)
                                     (\<lambda>x. x\<lparr>p_statut := Valide\<rparr>) (paiements s),
                     transactions := transactions s @
                       [\<lparr>t_id = uuid, paiementId = p_id p, t_montant = p_montant p,
                         t_date = now\<rparr>]\<rparr>)))"

text \<open>\<open>POST /api/admin/refuserPaiement\<close>\<close>

definition refuser_paiement ::
  "config \<Rightarrow> jsstring option \<Rightarrow> jsstring \<Rightarrow> jsval \<Rightarrow> jsval \<Rightarrow> store \<Rightarrow> reply \<times> store" where
  "refuser_paiement cfg authorization now paiementIdv raison s =
     (if \<not> adminAuth cfg authorization then (Reply 403 NoPayload, s)
      else if \<not> truthy paiementIdv then (Reply 400 NoPayload, s)
      else case find (\<lambda>x. same_id (p_id x) paiementIdv) (paiements s) of
             None \<Rightarrow> (Reply 404 NoPayload, s)
           | Some p \<Rightarrow>
               (let upd = (\<lambda>x. x\<lparr>p_statut := Refuse,
                                 p_refuseReason := Some (jsonify (js_or raison (JStr [])))\<rparr>)
                in (Reply 200 (PaiementP (upd p)),
                    logAdmin now ''REFUSER_PAIEMENT'' paiementIdv
                      (s\<lparr>paiements := update_first (\<lambda>x. same_id (p_id x) paiementIdv) upd
                                         (paiements s)\<rparr>))))"

text \<open>\<open>POST /api/admin/supprimerUtilisateur\<close>: no lookup, the list is filtered.\<close>

definition supprimer_utilisateur ::
  "config \<Rightarrow> jsstring option \<Rightarrow> jsstring \<Rightarrow> jsval \<Rightarrow> store \<Rightarrow> reply \<times> store" where
  "supprimer_utilisateur cfg authorization now idv s =
     (if \<not> adminAuth cfg authorization then (Reply 403 NoPayload, s)
      else if \<not> truthy idv then (Reply 400 NoPayload, s)
      else (Reply 200 NoPayload,
            logAdmin now ''SUPPRIMER_UTILISATEUR'' idv
              (s\<lparr>utilisateurs := filter (\<lambda>x. \<not> same_id (u_id x) idv) (utilisateurs s)\<rparr>)))"

text \<open>
  \<open>GET /api/admin/stats\<close>. \<open>t.montant || 0\<close> replaces \<open>null\<close> and \<open>0\<close> by \<open>0\<close>, and
  \<open>reduce\<close> adds from the left, starting at \<open>0\<close>.
\<close>

definition montant_or_0 :: "json_num \<Rightarrow> jsnum" where
  "montant_or_0 m = (case m of JsonNull \<Rightarrow> Fin 0 | JsonNum q \<Rightarrow> (if q \<noteq> 0 then Fin q else Fin 0))"

definition admin_stats :: "config \<Rightarrow> jsstring option \<Rightarrow> store \<Rightarrow> reply \<times> store" where
  "admin_stats cfg authorization s =
     (if \<not> adminAuth cfg authorization then (Reply 403 NoPayload, s)
      else
        let revenus = foldl (\<lambda>acc t. js_add acc (montant_or_0 (t_montant t))) (Fin 0)
                        (transactions s)
        in (Reply 200 (StatsP \<lparr>totalMaisons = length (maisons s),
                                totalUsers = length (utilisateurs s),
                                totalPaiements = length (paiements s),
                                revenusTotaux = revenus\<rparr>), s))"

section \<open>Sequences of requests\<close>

text \<open>
  A request carries what the handler reads from it and from its surroundings: the
  \<open>Authorization\<close> header, the fields of the body, the ids \<open>uuidv4()\<close> returns and
  the time.
\<close>

datatype request =
    GetMaisons
  | PostMaisons jsstring jsstring maison_body "upload list"
  | PostUtilisateurs jsstring jsval jsval
  | PostPaiements jsstring jsstring jsval jsval jsval jsval jsval
  | ValiderMaison "jsstring option" jsstring jsval
  | RefuserMaison "jsstring option" jsstring jsval jsval
  | SupprimerMaison "jsstring option" jsstring jsval
  | ValiderPaiement "jsstring option" jsstring jsstring jsval
  | RefuserPaiement "jsstring option" jsstring jsval jsval
  | SupprimerUtilisateur "jsstring option" jsstring jsval
  | GetStats "jsstring option"

fun handle :: "config \<Rightarrow> request \<Rightarrow> store \<Rightarrow> reply \<times> store" where
  "handle cfg GetMaisons s = get_maisons s"
| "handle cfg (PostMaisons uuid now body fs) s = post_maisons uuid now body fs s"
| "handle cfg (PostUtilisateurs uuid n t) s = post_utilisateurs uuid n t s"
| "handle cfg (PostPaiements uuid now u m a r me) s = post_paiements cfg uuid now u m a r me s"
| "handle cfg (ValiderMaison au now i) s = valider_maison cfg au now i s"
| "handle cfg (RefuserMaison au now i r) s = refuser_maison cfg au now i r s"
| "handle cfg (SupprimerMaison au now i) s = supprimer_maison cfg au now i s"
| "handle cfg (ValiderPaiement au uuid now i) s = valider_paiement cfg au uuid now i s"
| "handle cfg (RefuserPaiement au now i r) s = refuser_paiement cfg au now i r s"
| "handle cfg (SupprimerUtilisateur au now i) s = supprimer_utilisateur cfg au now i s"
| "handle cfg (GetStats au) s = admin_stats cfg au s"

text \<open>The store after a sequence of requests, served one after the other.\<close>

fun run :: "config \<Rightarrow> request list \<Rightarrow> store \<Rightarrow> store" where
  "run cfg [] s = s"
| "run cfg (r # rs) s = run cfg rs (snd (handle cfg r s))"

section \<open>Notions used in the statements\<close>

text \<open>
  The amount a transaction record carries, as a number: a record whose \<open>montant\<close> is
  \<open>null\<close> carries none and counts 0.
\<close>

definition montant_value :: "json_num \<Rightarrow> rat" where
  "montant_value m = (case m of JsonNull \<Rightarrow> 0 | JsonNum q \<Rightarrow> q)"

text \<open>A rational that is a finite binary64 value: rounding leaves it as it is.\<close>

definition representable :: "rat \<Rightarrow> bool" where
  "representable x = (round64 x = Fin x)"

text \<open>
  What holds of \<open>refuseReason\<close> on a listing: a pending listing has none, a refused
  listing has one.
\<close>

definition reason_ok :: "maison \<Rightarrow> bool" where
  "reason_ok m = ((m_statut m = En_attente \<longrightarrow> m_refuseReason m = None)
                \<and> (m_statut m = Refuse \<longrightarrow> m_refuseReason m \<noteq> None))"


section \<open>Sample requests and stores\<close>

text \<open>Concrete inputs, used to run the handlers.\<close>

definition cfg0 :: config where
  "cfg0 = load_config None None"

definition admin_key :: "jsstring option" where
  "admin_key = Some (js ''Ben&4002'')"

definition t0 :: jsstring where
  "t0 = (js ''2024-05-01T10:00:00.000Z'')"
definition t1 :: jsstring where
  "t1 = (js ''2024-05-01T11:00:00.000Z'')"
definition t2 :: jsstring where
  "t2 = (js ''2024-05-01T12:00:00.000Z'')"

definition pay_req :: request where
  "pay_req = PostPaiements (js ''p-1'') t0 (JStr (js ''u-1'')) (JStr (js ''m-1'')) (JNum (Fin 100))
     JUndefined JUndefined"

definition pay1 :: paiement where
  "pay1 = \<lparr>p_id = js ''p-1'', p_utilisateur = JStr (js ''u-1''), p_maison = JStr (js ''m-1''),
       p_montant = JsonNum 100, reference = JNull, methode = JStr (js ''mobile_money''),
       p_statut = En_attente, p_date = t0, receptionPhone = js ''+243831401205'',
       p_refuseReason = None\<rparr>"

definition paid :: store where
  "paid = run cfg0 [pay_req] init_store"

definition approved_once :: store where
  "approved_once =
     run cfg0 [pay_req, ValiderPaiement admin_key (js ''t-1'') t1 (JStr (js ''p-1''))] init_store"



definition body_ok :: maison_body where
  "body_ok = \<lparr>b_titre = JStr (js '' Villa Kivu ''), b_description = JStr (js ''3 chambres''),
       b_prix = JStr (js ''250''), b_ville = JStr (js ''Goma''), b_commune = JStr (js ''Goma''),
       b_quartier = JStr (js ''Himbi''), b_garantie = JUndefined, b_localisation = JUndefined,
       b_auteur = JStr (js ''u-1'')\<rparr>"





definition two_files :: "upload list" where
  "two_files =
     [\<lparr>filename = js ''1714557600000-a.jpg''\<rparr>, \<lparr>filename = js ''1714557600001-b.png''\<rparr>]"

definition three_listings :: "request list" where
  "three_listings =
     [PostMaisons (js ''m-1'') t0 body_ok [], PostMaisons (js ''m-2'') t0 body_ok two_files,
      PostMaisons (js ''m-3'') t0 body_ok [], PostMaisons (js ''m-4'') t0 body_ok [],
      ValiderMaison admin_key t1 (JStr (js ''m-3'')), ValiderMaison admin_key t1 (JStr (js ''m-1'')),
      ValiderMaison admin_key t1 (JStr (js ''m-2'')), ValiderMaison admin_key t1 (JStr (js ''m-4'')),
      RefuserMaison admin_key t2 (JStr (js ''m-2'')) JUndefined,
      SupprimerMaison admin_key t2 (JStr (js ''m-4''))]"

definition two_payments :: "request list" where
  "two_payments =
     [pay_req,
      PostPaiements (js ''p-2'') t0 (JStr (js ''u-1'')) (JStr (js ''m-2'')) (JStr (js ''250.5''))
        JUndefined JUndefined,
      PostPaiements (js ''p-3'') t0 (JStr (js ''u-1'')) (JStr (js ''m-2'')) (JStr (js ''abc''))
        JUndefined JUndefined,
      ValiderPaiement admin_key (js ''t-1'') t1 (JStr (js ''p-1'')),
      ValiderPaiement admin_key (js ''t-2'') t1 (JStr (js ''p-2'')),
      ValiderPaiement admin_key (js ''t-3'') t1 (JStr (js ''p-3'')),
      RefuserPaiement admin_key t2 (JStr (js ''p-1'')) (JStr (js ''doublon''))]"

text \<open>Two payments of 0.1 and 0.2, both approved.\<close>

definition tenths :: "request list" where
  "tenths =
     [PostPaiements (js ''p-1'') t0 (JStr (js ''u-1'')) (JStr (js ''m-1'')) (JStr (js ''0.1''))
        JUndefined JUndefined,
      PostPaiements (js ''p-2'') t0 (JStr (js ''u-1'')) (JStr (js ''m-1'')) (JStr (js ''0.2''))
        JUndefined JUndefined,
      ValiderPaiement admin_key (js ''t-1'') t1 (JStr (js ''p-1'')),
      ValiderPaiement admin_key (js ''t-2'') t1 (JStr (js ''p-2''))]"

definition maison1 :: maison where
  "maison1 = \<lparr>m_id = js ''m-1'', titre = js ''Villa Kivu'',
       description = JStr (js ''3 chambres''), prix = JsonNum 250,
       ville = JStr (js ''Goma''), commune = JStr (js ''Goma''), quartier = JStr (js ''Himbi''),
       garantie = JStr [], localisation = JStr [], images = [], auteur = JStr (js ''u-1''),
       m_statut = En_attente, datePublication = t0, m_refuseReason = None\<rparr>"

definition created_rejected :: "request list" where
  "created_rejected =
     [PostMaisons (js ''m-1'') t0 body_ok [],
      RefuserMaison admin_key t1 (JStr (js ''m-1'')) (JStr (js ''trop cher''))]"

definition rejected_then_validated :: "request list" where
  "rejected_then_validated =
     created_rejected @ [ValiderMaison admin_key t2 (JStr (js ''m-1''))]"

definition rejected1 :: maison where
  "rejected1 = maison1\<lparr>m_statut := Refuse, m_refuseReason := Some (JStr (js ''trop cher''))\<rparr>"

section \<open>Lemmas on the helpers\<close>

lemma update_first_split:
  "find P xs = Some p \<Longrightarrow>
   \<exists>ys zs. xs = ys @ p # zs \<and> (\<forall>y\<in>set ys. \<not> P y) \<and> update_first P f xs = ys @ f p # zs"
proof (induction xs)
  case Nil
  then show ?case by simp
next
  case (Cons x xs)
  show ?case
  proof (cases "P x")
    case True
    with Cons.prems have "x = p" by simp
    with True have "x # xs = [] @ p # xs \<and> (\<forall>y\<in>set []. \<not> P y)
        \<and> update_first P f (x # xs) = [] @ f p # xs" by simp
    then show ?thesis by blast
  next
    case False
    with Cons.prems have "find P xs = Some p" by simp
    from Cons.IH[OF this] obtain ys zs where
      h: "xs = ys @ p # zs" "\<forall>y\<in>set ys. \<not> P y" "update_first P f xs = ys @ f p # zs" by blast
    with False have "x # xs = (x # ys) @ p # zs \<and> (\<forall>y\<in>set (x # ys). \<not> P y)
        \<and> update_first P f (x # xs) = (x # ys) @ f p # zs" by simp
    then show ?thesis by blast
  qed
qed

lemma valider_paiement_found:
  assumes "adminAuth cfg au" "truthy pid"
    and "find (\<lambda>x. same_id (p_id x) pid) (paiements s) = Some p"
  shows "valider_paiement cfg au uuid now pid s =
     (Reply 200 (PaiementP (p\<lparr>p_statut := Valide\<rparr>)),
      s\<lparr>paiements := update_first (\<lambda>x. same_id (p_id x) pid)
                                     (\<lambda>x. x\<lparr>p_statut := Valide\<rparr>) (paiements s),
        transactions := transactions s @
                       [\<lparr>t_id = uuid, paiementId = p_id p, t_montant = p_montant p,
                         t_date = now\<rparr>],
        admin_log := admin_log s @
          [\<lparr>l_when = now, l_action = ''VALIDER_PAIEMENT'', l_subject = pid\<rparr>]\<rparr>)"
  using assms by (simp add: valider_paiement_def logAdmin_def)

lemma valider_maison_found:
  assumes "adminAuth cfg au" "truthy idv"
    and "find (\<lambda>x. same_id (m_id x) idv) (maisons s) = Some m"
  shows "valider_maison cfg au now idv s =
     (Reply 200 (MaisonP (m\<lparr>m_statut := Valide\<rparr>)),
      s\<lparr>maisons := update_first (\<lambda>x. same_id (m_id x) idv)
                                   (\<lambda>x. x\<lparr>m_statut := Valide\<rparr>) (maisons s),
        admin_log := admin_log s @
          [\<lparr>l_when = now, l_action = ''VALIDER_MAISON'', l_subject = idv\<rparr>]\<rparr>)"
  using assms by (simp add: valider_maison_def logAdmin_def)



lemma missing_or_short_False:
  "missing_or_short v n = Inr False \<Longrightarrow> \<exists>t. v = JStr t"
  by (cases v) (auto simp add: missing_or_short_def split: if_splits)

lemma validate_ok_titre:
  assumes "validateMaisonFields body = Inr []"
  shows "\<exists>t. b_titre body = JStr t"
proof -
  from assms have "missing_or_short (b_titre body) 3 = Inr False"
    by (auto simp add: validateMaisonFields_def Let_def split: sum.splits if_splits)
  then show ?thesis by (rule missing_or_short_False)
qed



lemma foldl_js_add_exact:
  "\<forall>k\<le>length xs. representable (a + sum_list (take k xs))
   \<Longrightarrow> foldl (\<lambda>acc x. js_add acc (Fin x)) (Fin a) xs = Fin (a + sum_list xs)"
proof (induction xs arbitrary: a)
  case Nil
  then show ?case by simp
next
  case (Cons x xs)
  from Cons.prems have "representable (a + sum_list (take (Suc 0) (x # xs)))"
    by (metis Suc_leI length_Cons zero_less_Suc)
  then have step: "js_add (Fin a) (Fin x) = Fin (a + x)"
    by (simp add: representable_def)
  have "\<forall>k\<le>length xs. representable ((a + x) + sum_list (take k xs))"
  proof (intro allI impI)
    fix k assume "k \<le> length xs"
    then have "Suc k \<le> length (x # xs)" by simp
    with Cons.prems have "representable (a + sum_list (take (Suc k) (x # xs)))" by blast
    then show "representable ((a + x) + sum_list (take k xs))" by (simp add: add.assoc)
  qed
  from Cons.IH[OF this] step show ?case by (simp add: add.assoc)
qed

lemma montant_or_0_value: "montant_or_0 m = Fin (montant_value m)"
  by (cases m) (simp_all add: montant_or_0_def montant_value_def)

lemma foldl_montants:
  "foldl (\<lambda>acc t. js_add acc (montant_or_0 (t_montant t))) a ts
     = foldl (\<lambda>acc x. js_add acc (Fin x)) a (map (\<lambda>t. montant_value (t_montant t)) ts)"
  by (induction ts arbitrary: a) (simp_all add: montant_or_0_value)

lemma update_first_origin:
  "m \<in> set (update_first P f xs) \<Longrightarrow> m \<in> set xs \<or> (\<exists>x\<in>set xs. m = f x)"
  by (induction xs) (auto split: if_splits)

lemma run_snoc: "run cfg (rs @ [r]) s = snd (handle cfg r (run cfg rs s))"
  by (induction rs arbitrary: s) simp_all

lemma update_first_pres:
  "\<forall>x\<in>set xs. Q x \<Longrightarrow> (\<And>x. Q x \<Longrightarrow> Q (f x)) \<Longrightarrow> \<forall>x\<in>set (update_first P f xs). Q x"
  by (induction xs) auto

lemma handle_reason_ok:
  assumes "\<forall>m\<in>set (maisons s). reason_ok m"
  shows "\<forall>m\<in>set (maisons (snd (handle cfg r s))). reason_ok m"
proof (cases r)
  case GetMaisons
  with assms show ?thesis by (simp add: get_maisons_def)
next
  case (PostMaisons uuid now body fs)
  with assms show ?thesis
    by (auto simp add: post_maisons_def multer_store_def Let_def reason_ok_def
          split: sum.splits jsval.splits)
next
  case (PostUtilisateurs uuid n t)
  with assms show ?thesis
    by (auto simp add: post_utilisateurs_def Let_def split: jsval.splits)
next
  case (PostPaiements uuid now u m a rf me)
  with assms show ?thesis by (simp add: post_paiements_def Let_def)
next
  case (ValiderMaison au now i)
  have "\<forall>x\<in>set (update_first (\<lambda>x. same_id (m_id x) i) (\<lambda>x. x\<lparr>m_statut := Valide\<rparr>)
                   (maisons s)). reason_ok x"
    using assms by (rule update_first_pres) (simp add: reason_ok_def)
  with ValiderMaison assms show ?thesis
    by (simp add: valider_maison_def logAdmin_def split: option.splits)
next
  case (RefuserMaison au now i ra)
  have "\<forall>x\<in>set (update_first (\<lambda>x. same_id (m_id x) i)
           (\<lambda>x. x\<lparr>m_statut := Refuse, m_refuseReason := Some (jsonify (js_or ra (JStr [])))\<rparr>)
           (maisons s)). reason_ok x"
    using assms by (rule update_first_pres) (simp add: reason_ok_def)
  with RefuserMaison assms show ?thesis
    by (simp add: refuser_maison_def logAdmin_def Let_def split: option.splits)
next
  case (SupprimerMaison au now i)
  with assms show ?thesis
    by (simp add: supprimer_maison_def logAdmin_def split: option.splits)
next
  case (ValiderPaiement au uuid now i)
  with assms show ?thesis
    by (simp add: valider_paiement_def logAdmin_def split: option.splits)
next
  case (RefuserPaiement au now i ra)
  with assms show ?thesis
    by (simp add: refuser_paiement_def logAdmin_def Let_def split: option.splits)
next
  case (SupprimerUtilisateur au now i)
  with assms show ?thesis by (simp add: supprimer_utilisateur_def logAdmin_def)
next
  case (GetStats au)
  with assms show ?thesis by (simp add: admin_stats_def Let_def)
qed

lemma run_reason_ok:
  "\<forall>m\<in>set (maisons s). reason_ok m \<Longrightarrow> \<forall>m\<in>set (maisons (run cfg reqs s)). reason_ok m"
proof (induction reqs arbitrary: s)
  case Nil
  then show ?case by simp
next
  case (Cons r reqs)
  from Cons.prems have "\<forall>m\<in>set (maisons (snd (handle cfg r s))). reason_ok m"
    by (rule handle_reason_ok)
  then show ?case using Cons.IH by simp
qed

text \<open>Where the reason of a listing comes from, over one request and over a run.\<close>

lemma handle_reason_origin:
  "\<forall>m\<in>set (maisons (snd (handle cfg r s))).
     m_refuseReason m = None \<or> m_statut m = Refuse
     \<or> (\<exists>m0\<in>set (maisons s). m_id m0 = m_id m \<and> m_refuseReason m0 = m_refuseReason m)"
proof (cases r)
  case GetMaisons
  then show ?thesis by (auto simp add: get_maisons_def)
next
  case (PostMaisons uuid now body fs)
  then show ?thesis
    by (auto simp add: post_maisons_def multer_store_def Let_def
          split: sum.splits jsval.splits)
next
  case (PostUtilisateurs uuid n t)
  then show ?thesis
    by (auto simp add: post_utilisateurs_def Let_def split: jsval.splits)
next
  case (PostPaiements uuid now u m a rf me)
  then show ?thesis by (auto simp add: post_paiements_def Let_def)
next
  case (ValiderMaison au now i)
  have "\<forall>m\<in>set (update_first (\<lambda>x. same_id (m_id x) i) (\<lambda>x. x\<lparr>m_statut := Valide\<rparr>)
                   (maisons s)).
          \<exists>m0\<in>set (maisons s). m_id m0 = m_id m \<and> m_refuseReason m0 = m_refuseReason m"
    by (auto dest!: update_first_origin)
  with ValiderMaison show ?thesis
    by (auto simp add: valider_maison_def logAdmin_def split: option.splits)
next
  case (RefuserMaison au now i ra)
  have "\<forall>m\<in>set (update_first (\<lambda>x. same_id (m_id x) i)
           (\<lambda>x. x\<lparr>m_statut := Refuse, m_refuseReason := Some (jsonify (js_or ra (JStr [])))\<rparr>)
           (maisons s)).
          m_statut m = Refuse
          \<or> (\<exists>m0\<in>set (maisons s). m_id m0 = m_id m \<and> m_refuseReason m0 = m_refuseReason m)"
    by (auto dest!: update_first_origin)
  with RefuserMaison show ?thesis
    by (auto simp add: refuser_maison_def logAdmin_def Let_def split: option.splits)
next
  case (SupprimerMaison au now i)
  then show ?thesis
    by (auto simp add: supprimer_maison_def logAdmin_def split: option.splits)
next
  case (ValiderPaiement au uuid now i)
  then show ?thesis
    by (auto simp add: valider_paiement_def logAdmin_def split: option.splits)
next
  case (RefuserPaiement au now i ra)
  then show ?thesis
    by (auto simp add: refuser_paiement_def logAdmin_def Let_def split: option.splits)
next
  case (SupprimerUtilisateur au now i)
  then show ?thesis by (auto simp add: supprimer_utilisateur_def logAdmin_def)
next
  case (GetStats au)
  then show ?thesis by (auto simp add: admin_stats_def Let_def)
qed

lemma run_reason_history:
  "\<forall>m\<in>set (maisons (run cfg reqs init_store)).
     m_refuseReason m \<noteq> None \<longrightarrow>
     (\<exists>k\<le>length reqs. \<exists>m'\<in>set (maisons (run cfg (take k reqs) init_store)).
        m_id m' = m_id m \<and> m_statut m' = Refuse \<and> m_refuseReason m' = m_refuseReason m)"
proof (induction reqs rule: rev_induct)
  case Nil
  then show ?case by (simp add: init_store_def)
next
  case (snoc r reqs)
  show ?case
  proof (intro ballI impI)
    fix m
    assume m: "m \<in> set (maisons (run cfg (reqs @ [r]) init_store))"
      and some: "m_refuseReason m \<noteq> None"
    from m have "m \<in> set (maisons (snd (handle cfg r (run cfg reqs init_store))))"
      by (simp add: run_snoc)
    with handle_reason_origin[of cfg r "run cfg reqs init_store"]
    have "m_refuseReason m = None \<or> m_statut m = Refuse
       \<or> (\<exists>m0\<in>set (maisons (run cfg reqs init_store)).
             m_id m0 = m_id m \<and> m_refuseReason m0 = m_refuseReason m)"
      by (rule bspec)
    with some have origin: "m_statut m = Refuse
       \<or> (\<exists>m0\<in>set (maisons (run cfg reqs init_store)).
             m_id m0 = m_id m \<and> m_refuseReason m0 = m_refuseReason m)"
      by (elim disjE) simp_all
    show "\<exists>k\<le>length (reqs @ [r]).
        \<exists>m'\<in>set (maisons (run cfg (take k (reqs @ [r])) init_store)).
          m_id m' = m_id m \<and> m_statut m' = Refuse \<and> m_refuseReason m' = m_refuseReason m"
    proof (cases "m_statut m = Refuse")
      case True
      with m have "\<exists>m'\<in>set (maisons (run cfg (take (length (reqs @ [r])) (reqs @ [r]))
                        init_store)).
          m_id m' = m_id m \<and> m_statut m' = Refuse \<and> m_refuseReason m' = m_refuseReason m"
        by auto
      then show ?thesis by blast
    next
      case False
      with origin obtain m0 where m0: "m0 \<in> set (maisons (run cfg reqs init_store))"
          "m_id m0 = m_id m" "m_refuseReason m0 = m_refuseReason m"
        by auto
      with some have "m_refuseReason m0 \<noteq> None" by simp
      with snoc.IH m0(1) obtain k m' where k: "k \<le> length reqs"
        and m': "m' \<in> set (maisons (run cfg (take k reqs) init_store))"
          "m_id m' = m_id m0" "m_statut m' = Refuse" "m_refuseReason m' = m_refuseReason m0"
        by blast
      from k have tk: "take k (reqs @ [r]) = take k reqs" by simp
      from k have "k \<le> length (reqs @ [r])" by simp
      moreover from m' m0 tk have "\<exists>m'\<in>set (maisons (run cfg (take k (reqs @ [r])) init_store)).
          m_id m' = m_id m \<and> m_statut m' = Refuse \<and> m_refuseReason m' = m_refuseReason m"
        by auto
      ultimately show ?thesis by blast
    qed
  qed
qed

section \<open>The claims\<close>

subsection \<open>C1: approving a payment that is approved already\<close>

text \<open>
  Claim C1 says that a second approval adds no transaction. In the store reached by
  creating a payment and approving it once, the payment is approved and the ledger has
  one transaction; approving the same id again leaves two.
\<close>

theorem approve_twice_counterexample:
  "map p_statut (paiements approved_once) = [Valide]
   \<and> length (transactions approved_once) = 1
   \<and> length (transactions (snd (valider_paiement cfg0 admin_key (js ''t-2'') t2 (JStr (js ''p-1''))
         approved_once))) = 2
   \<and> transactions (snd (valider_paiement cfg0 admin_key (js ''t-2'') t2 (JStr (js ''p-1'')) approved_once))
       \<noteq> transactions approved_once"
  by code_simp

text \<open>
  Claim C1, amended. An authorised \<open>validerPaiement\<close> for the id of a payment that
  is approved already answers 200, leaves the list of payments as it is and appends one
  more transaction with the id and the amount of that payment.
\<close>

theorem valider_paiement_again:
  assumes "adminAuth cfg au" and "truthy pid"
    and "find (\<lambda>x. same_id (p_id x) pid) (paiements s) = Some p"
    and "p_statut p = Valide"
  shows "\<exists>s'. valider_paiement cfg au uuid now pid s = (Reply 200 (PaiementP p), s')
     \<and> paiements s' = paiements s
     \<and> transactions s' = transactions s @
          [\<lparr>t_id = uuid, paiementId = p_id p, t_montant = p_montant p, t_date = now\<rparr>]"
proof -
  have same: "p\<lparr>p_statut := Valide\<rparr> = p"
    using assms(4) by (cases p) simp
  from update_first_split[OF assms(3), of "\<lambda>x. x\<lparr>p_statut := Valide\<rparr>"]
  obtain ys zs where h: "paiements s = ys @ p # zs"
    "update_first (\<lambda>x. same_id (p_id x) pid) (\<lambda>x. x\<lparr>p_statut := Valide\<rparr>) (paiements s)
       = ys @ p\<lparr>p_statut := Valide\<rparr> # zs" by blast
  show ?thesis
    using valider_paiement_found[OF assms(1-3), of uuid now] h same by auto
qed

text \<open>The amended statement at the store where the payment was approved once.\<close>

theorem valider_paiement_again_witness:
  "adminAuth cfg0 admin_key \<and> truthy (JStr (js ''p-1''))
   \<and> find (\<lambda>x. same_id (p_id x) (JStr (js ''p-1''))) (paiements approved_once)
       = Some (pay1\<lparr>p_statut := Valide\<rparr>)
   \<and> p_statut (pay1\<lparr>p_statut := Valide\<rparr>) = Valide
   \<and> (\<exists>s'. valider_paiement cfg0 admin_key (js ''t-2'') t2 (JStr (js ''p-1'')) approved_once
              = (Reply 200 (PaiementP (pay1\<lparr>p_statut := Valide\<rparr>)), s')
        \<and> paiements s' = paiements approved_once
        \<and> transactions s' = transactions approved_once @
             [\<lparr>t_id = (js ''t-2''), paiementId = (js ''p-1''), t_montant = JsonNum 100, t_date = t2\<rparr>])"
proof -
  have h1: "adminAuth cfg0 admin_key" by code_simp
  have h2: "truthy (JStr (js ''p-1''))" by code_simp
  have h3: "find (\<lambda>x. same_id (p_id x) (JStr (js ''p-1''))) (paiements approved_once)
       = Some (pay1\<lparr>p_statut := Valide\<rparr>)" by code_simp
  have h4: "p_statut (pay1\<lparr>p_statut := Valide\<rparr>) = Valide" by simp
  show ?thesis
    using valider_paiement_again[OF h1 h2 h3 h4, of "(js ''t-2'')" t2] h1 h2 h3
    by (simp add: pay1_def)
qed

subsection \<open>C2: validation of a new payment\<close>




subsection \<open>C3: the transitions of a listing's status\<close>

text \<open>
  Claim C3 says that a listing seen refused is never seen approved later. After a
  listing is created and refused its status is \<open>refuse\<close>; after it is validated next,
  its status is \<open>valide\<close>.
\<close>

theorem rejected_then_approved_counterexample:
  "map m_id (maisons (run cfg0 created_rejected init_store)) = [(js ''m-1'')]
   \<and> map m_statut (maisons (run cfg0 created_rejected init_store)) = [Refuse]
   \<and> map m_id (maisons (run cfg0 rejected_then_validated init_store)) = [(js ''m-1'')]
   \<and> map m_statut (maisons (run cfg0 rejected_then_validated init_store)) = [Valide]"
  by code_simp

text \<open>
  Claim C3, amended. A submission that passes the validation is appended with status
  \<open>en_attente\<close>. An authorised \<open>validerMaison\<close> for an id that is found sets the
  status of that listing (the first one with the id) to \<open>valide\<close> whatever it was
  before, pending, approved or refused, and touches no other listing; on a listing that
  is approved already the collection stays as it is.
\<close>

theorem statut_transitions:
  "(validateMaisonFields body = Inr [] \<longrightarrow>
      (\<exists>m s'. post_maisons uuid now body fs s = (Reply 200 (MaisonP m), s')
         \<and> maisons s' = maisons s @ [m] \<and> m_statut m = En_attente))
   \<and> (adminAuth cfg au \<and> truthy idv
        \<and> find (\<lambda>x. same_id (m_id x) idv) (maisons s) = Some m0 \<longrightarrow>
      (\<exists>s' ys zs. valider_maison cfg au now idv s
            = (Reply 200 (MaisonP (m0\<lparr>m_statut := Valide\<rparr>)), s')
         \<and> maisons s = ys @ m0 # zs \<and> (\<forall>y\<in>set ys. \<not> same_id (m_id y) idv)
         \<and> maisons s' = ys @ m0\<lparr>m_statut := Valide\<rparr> # zs
         \<and> (m_statut m0 = Valide \<longrightarrow> maisons s' = maisons s)))"
proof (intro conjI impI)
  assume ok: "validateMaisonFields body = Inr []"
  then obtain t where "b_titre body = JStr t" using validate_ok_titre by blast
  with ok show "\<exists>m s'. post_maisons uuid now body fs s = (Reply 200 (MaisonP m), s')
         \<and> maisons s' = maisons s @ [m] \<and> m_statut m = En_attente"
    by (simp add: post_maisons_def Let_def multer_store_def)
next
  assume a: "adminAuth cfg au \<and> truthy idv
        \<and> find (\<lambda>x. same_id (m_id x) idv) (maisons s) = Some m0"
  then have f: "find (\<lambda>x. same_id (m_id x) idv) (maisons s) = Some m0" by simp
  from update_first_split[OF f, of "\<lambda>x. x\<lparr>m_statut := Valide\<rparr>"]
  obtain ys zs where h: "maisons s = ys @ m0 # zs" "\<forall>y\<in>set ys. \<not> same_id (m_id y) idv"
    "update_first (\<lambda>x. same_id (m_id x) idv) (\<lambda>x. x\<lparr>m_statut := Valide\<rparr>) (maisons s)
       = ys @ m0\<lparr>m_statut := Valide\<rparr> # zs" by blast
  have same: "m_statut m0 = Valide \<longrightarrow> m0\<lparr>m_statut := Valide\<rparr> = m0"
    by (cases m0) simp
  from a have "valider_maison cfg au now idv s =
     (Reply 200 (MaisonP (m0\<lparr>m_statut := Valide\<rparr>)),
      s\<lparr>maisons := update_first (\<lambda>x. same_id (m_id x) idv)
                                   (\<lambda>x. x\<lparr>m_statut := Valide\<rparr>) (maisons s),
        admin_log := admin_log s @
          [\<lparr>l_when = now, l_action = ''VALIDER_MAISON'', l_subject = idv\<rparr>]\<rparr>)"
    by (simp add: valider_maison_found)
  with h same show "\<exists>s' ys zs. valider_maison cfg au now idv s
            = (Reply 200 (MaisonP (m0\<lparr>m_statut := Valide\<rparr>)), s')
         \<and> maisons s = ys @ m0 # zs \<and> (\<forall>y\<in>set ys. \<not> same_id (m_id y) idv)
         \<and> maisons s' = ys @ m0\<lparr>m_statut := Valide\<rparr> # zs
         \<and> (m_statut m0 = Valide \<longrightarrow> maisons s' = maisons s)"
    by auto
qed

text \<open>
  The amended statement at a store whose one listing was refused: a new submission
  comes in pending, and validating the refused listing makes it approved.
\<close>

theorem statut_transitions_witness:
  "validateMaisonFields body_ok = Inr []
   \<and> adminAuth cfg0 admin_key \<and> truthy (JStr (js ''m-1''))
   \<and> find (\<lambda>x. same_id (m_id x) (JStr (js ''m-1''))) (maisons (run cfg0 created_rejected init_store))
       = Some rejected1
   \<and> m_statut rejected1 = Refuse
   \<and> (\<exists>m s'. post_maisons (js ''m-2'') t2 body_ok [] (run cfg0 created_rejected init_store)
                = (Reply 200 (MaisonP m), s')
          \<and> m_statut m = En_attente)
   \<and> (\<exists>s'. valider_maison cfg0 admin_key t2 (JStr (js ''m-1'')) (run cfg0 created_rejected init_store)
              = (Reply 200 (MaisonP (rejected1\<lparr>m_statut := Valide\<rparr>)), s')
          \<and> maisons s' = [rejected1\<lparr>m_statut := Valide\<rparr>])"
proof -
  have h1: "validateMaisonFields body_ok = Inr []" by code_simp
  have h2: "adminAuth cfg0 admin_key" by code_simp
  have h3: "truthy (JStr (js ''m-1''))" by code_simp
  have h4: "find (\<lambda>x. same_id (m_id x) (JStr (js ''m-1'')))
              (maisons (run cfg0 created_rejected init_store)) = Some rejected1"
    by code_simp
  have h5: "m_statut rejected1 = Refuse" by (simp add: rejected1_def)
  have h6: "maisons (run cfg0 created_rejected init_store) = [rejected1]" by code_simp
  note t = statut_transitions[of body_ok "js ''m-2''" t2 "[]"
      "run cfg0 created_rejected init_store" cfg0 admin_key "JStr (js ''m-1'')" rejected1]
  from t h1 have a: "\<exists>m s'. post_maisons (js ''m-2'') t2 body_ok []
          (run cfg0 created_rejected init_store) = (Reply 200 (MaisonP m), s')
        \<and> m_statut m = En_attente" by blast
  from t h2 h3 h4 obtain s' ys zs where r:
    "valider_maison cfg0 admin_key t2 (JStr (js ''m-1'')) (run cfg0 created_rejected init_store)
       = (Reply 200 (MaisonP (rejected1\<lparr>m_statut := Valide\<rparr>)), s')"
    "maisons (run cfg0 created_rejected init_store) = ys @ rejected1 # zs"
    "maisons s' = ys @ rejected1\<lparr>m_statut := Valide\<rparr> # zs" by blast
  from r(2) h6 have "ys = [] \<and> zs = []" by (cases ys) auto
  with r have b: "\<exists>s'. valider_maison cfg0 admin_key t2 (JStr (js ''m-1''))
          (run cfg0 created_rejected init_store)
            = (Reply 200 (MaisonP (rejected1\<lparr>m_statut := Valide\<rparr>)), s')
        \<and> maisons s' = [rejected1\<lparr>m_statut := Valide\<rparr>]" by simp
  from h1 h2 h3 h4 h5 a b show ?thesis by blast
qed

subsection \<open>C4: the rejection reason\<close>

text \<open>
  Claim C4 says that an approved listing carries no rejection reason. After a listing is
  created, refused with a reason and validated, it is approved and still carries the
  reason.
\<close>

theorem reason_kept_counterexample:
  "map m_statut (maisons (run cfg0 rejected_then_validated init_store)) = [Valide]
   \<and> map m_refuseReason (maisons (run cfg0 rejected_then_validated init_store))
       = [Some (JStr (js ''trop cher''))]"
  by code_simp

text \<open>
  Claim C4, amended. In every store reached from the empty one by any sequence of
  requests, a listing carries a \<open>refuseReason\<close> only when its status is \<open>refuse\<close>
  or it was refused earlier: a pending listing has none, a refused listing has one, and
  a listing that has one was in the collection, under the same id, with status
  \<open>refuse\<close> and that reason, after some prefix of the requests. And an authorised
  \<open>validerMaison\<close> for an id that is found leaves the \<open>refuseReason\<close> of that
  listing as it was, on the record it makes approved.
\<close>

theorem refuseReason_history:
  "(\<forall>m\<in>set (maisons (run cfg reqs init_store)).
      (m_statut m = En_attente \<longrightarrow> m_refuseReason m = None)
      \<and> (m_statut m = Refuse \<longrightarrow> m_refuseReason m \<noteq> None)
      \<and> (m_refuseReason m \<noteq> None \<longrightarrow>
           (\<exists>k\<le>length reqs. \<exists>m'\<in>set (maisons (run cfg (take k reqs) init_store)).
              m_id m' = m_id m \<and> m_statut m' = Refuse
              \<and> m_refuseReason m' = m_refuseReason m)))
   \<and> (adminAuth cfg au \<and> truthy idv
        \<and> find (\<lambda>x. same_id (m_id x) idv) (maisons s) = Some m0 \<longrightarrow>
      (\<exists>m1 s' ys zs. valider_maison cfg au now idv s = (Reply 200 (MaisonP m1), s')
         \<and> maisons s = ys @ m0 # zs \<and> maisons s' = ys @ m1 # zs
         \<and> m_statut m1 = Valide \<and> m_refuseReason m1 = m_refuseReason m0))"
proof (intro conjI impI)
  have "\<forall>m\<in>set (maisons init_store). reason_ok m" by (simp add: init_store_def)
  then have ok: "\<forall>m\<in>set (maisons (run cfg reqs init_store)). reason_ok m"
    by (rule run_reason_ok)
  show "\<forall>m\<in>set (maisons (run cfg reqs init_store)).
      (m_statut m = En_attente \<longrightarrow> m_refuseReason m = None)
      \<and> (m_statut m = Refuse \<longrightarrow> m_refuseReason m \<noteq> None)
      \<and> (m_refuseReason m \<noteq> None \<longrightarrow>
           (\<exists>k\<le>length reqs. \<exists>m'\<in>set (maisons (run cfg (take k reqs) init_store)).
              m_id m' = m_id m \<and> m_statut m' = Refuse
              \<and> m_refuseReason m' = m_refuseReason m))"
  proof
    fix m assume m: "m \<in> set (maisons (run cfg reqs init_store))"
    with ok have "reason_ok m" by blast
    moreover from run_reason_history[of cfg reqs] m
    have "m_refuseReason m \<noteq> None \<longrightarrow>
           (\<exists>k\<le>length reqs. \<exists>m'\<in>set (maisons (run cfg (take k reqs) init_store)).
              m_id m' = m_id m \<and> m_statut m' = Refuse
              \<and> m_refuseReason m' = m_refuseReason m)"
      by (rule bspec)
    ultimately show "(m_statut m = En_attente \<longrightarrow> m_refuseReason m = None)
      \<and> (m_statut m = Refuse \<longrightarrow> m_refuseReason m \<noteq> None)
      \<and> (m_refuseReason m \<noteq> None \<longrightarrow>
           (\<exists>k\<le>length reqs. \<exists>m'\<in>set (maisons (run cfg (take k reqs) init_store)).
              m_id m' = m_id m \<and> m_statut m' = Refuse
              \<and> m_refuseReason m' = m_refuseReason m))"
      by (simp add: reason_ok_def)
  qed
next
  assume a: "adminAuth cfg au \<and> truthy idv
        \<and> find (\<lambda>x. same_id (m_id x) idv) (maisons s) = Some m0"
  then have f: "find (\<lambda>x. same_id (m_id x) idv) (maisons s) = Some m0" by simp
  from update_first_split[OF f, of "\<lambda>x. x\<lparr>m_statut := Valide\<rparr>"]
  obtain ys zs where h: "maisons s = ys @ m0 # zs"
    "update_first (\<lambda>x. same_id (m_id x) idv) (\<lambda>x. x\<lparr>m_statut := Valide\<rparr>) (maisons s)
       = ys @ m0\<lparr>m_statut := Valide\<rparr> # zs" by blast
  from a have "valider_maison cfg au now idv s =
     (Reply 200 (MaisonP (m0\<lparr>m_statut := Valide\<rparr>)),
      s\<lparr>maisons := update_first (\<lambda>x. same_id (m_id x) idv)
                                   (\<lambda>x. x\<lparr>m_statut := Valide\<rparr>) (maisons s),
        admin_log := admin_log s @
          [\<lparr>l_when = now, l_action = ''VALIDER_MAISON'', l_subject = idv\<rparr>]\<rparr>)"
    by (simp add: valider_maison_found)
  with h have "valider_maison cfg au now idv s
        = (Reply 200 (MaisonP (m0\<lparr>m_statut := Valide\<rparr>)),
           s\<lparr>maisons := ys @ m0\<lparr>m_statut := Valide\<rparr> # zs,
             admin_log := admin_log s @
               [\<lparr>l_when = now, l_action = ''VALIDER_MAISON'', l_subject = idv\<rparr>]\<rparr>)
      \<and> maisons s = ys @ m0 # zs
      \<and> m_statut (m0\<lparr>m_statut := Valide\<rparr>) = Valide
      \<and> m_refuseReason (m0\<lparr>m_statut := Valide\<rparr>) = m_refuseReason m0"
    by simp
  then show "\<exists>m1 s' ys zs. valider_maison cfg au now idv s = (Reply 200 (MaisonP m1), s')
         \<and> maisons s = ys @ m0 # zs \<and> maisons s' = ys @ m1 # zs
         \<and> m_statut m1 = Valide \<and> m_refuseReason m1 = m_refuseReason m0"
    by (intro exI[of _ "m0\<lparr>m_statut := Valide\<rparr>"] exI[of _ ys] exI[of _ zs]
          exI[of _ "s\<lparr>maisons := ys @ m0\<lparr>m_statut := Valide\<rparr> # zs,
             admin_log := admin_log s @
               [\<lparr>l_when = now, l_action = ''VALIDER_MAISON'', l_subject = idv\<rparr>]\<rparr>"]) simp
qed

text \<open>
  The amended statement after a listing was created and refused with a reason, and at
  the validation of that listing.
\<close>

theorem refuseReason_history_witness:
  "adminAuth cfg0 admin_key \<and> truthy (JStr (js ''m-1''))
   \<and> find (\<lambda>x. same_id (m_id x) (JStr (js ''m-1'')))
        (maisons (run cfg0 created_rejected init_store)) = Some rejected1
   \<and> maisons (run cfg0 created_rejected init_store) = [rejected1]
   \<and> m_statut rejected1 = Refuse
   \<and> m_refuseReason rejected1 = Some (JStr (js ''trop cher''))
   \<and> (\<exists>m1 s'. valider_maison cfg0 admin_key t2 (JStr (js ''m-1''))
                   (run cfg0 created_rejected init_store) = (Reply 200 (MaisonP m1), s')
          \<and> maisons s' = [m1] \<and> m_statut m1 = Valide
          \<and> m_refuseReason m1 = Some (JStr (js ''trop cher'')))"
proof -
  have h1: "adminAuth cfg0 admin_key" by code_simp
  have h2: "truthy (JStr (js ''m-1''))" by code_simp
  have h3: "find (\<lambda>x. same_id (m_id x) (JStr (js ''m-1'')))
              (maisons (run cfg0 created_rejected init_store)) = Some rejected1"
    by code_simp
  have h4: "maisons (run cfg0 created_rejected init_store) = [rejected1]" by code_simp
  have h5: "m_statut rejected1 = Refuse" by (simp add: rejected1_def)
  note t = refuseReason_history[of cfg0 created_rejected admin_key "JStr (js ''m-1'')"
      "run cfg0 created_rejected init_store" rejected1 t2]
  from h4 have "rejected1 \<in> set (maisons (run cfg0 created_rejected init_store))" by simp
  with t h5 have "m_refuseReason rejected1 \<noteq> None" by blast
  then have h6: "m_refuseReason rejected1 = Some (JStr (js ''trop cher''))"
    by (simp add: rejected1_def)
  from t h1 h2 h3 obtain m1 s' ys zs where r:
    "valider_maison cfg0 admin_key t2 (JStr (js ''m-1'')) (run cfg0 created_rejected init_store)
       = (Reply 200 (MaisonP m1), s')"
    "maisons (run cfg0 created_rejected init_store) = ys @ rejected1 # zs"
    "maisons s' = ys @ m1 # zs" "m_statut m1 = Valide"
    "m_refuseReason m1 = m_refuseReason rejected1" by blast
  from r(2) h4 have "ys = [] \<and> zs = []" by (cases ys) auto
  with r h6 have "\<exists>m1 s'. valider_maison cfg0 admin_key t2 (JStr (js ''m-1''))
                   (run cfg0 created_rejected init_store) = (Reply 200 (MaisonP m1), s')
          \<and> maisons s' = [m1] \<and> m_statut m1 = Valide
          \<and> m_refuseReason m1 = Some (JStr (js ''trop cher''))" by auto
  with h1 h2 h3 h4 h5 h6 show ?thesis by blast
qed

subsection \<open>C5: approving a pending payment\<close>

text \<open>
  Claim C5. An authorised \<open>validerPaiement\<close> for the id of a pending payment answers
  200 and appends exactly one transaction, which carries the id of the payment, its
  amount and the current time; the payment found under that id (the first one in the
  list) has status \<open>valide\<close> afterwards and is otherwise as before, and every other
  payment is untouched.
\<close>

theorem valider_paiement_pending:
  assumes "adminAuth cfg au" and "truthy pid"
    and "find (\<lambda>x. same_id (p_id x) pid) (paiements s) = Some p"
    and "p_statut p = En_attente"
  shows "\<exists>s' ys zs.
     valider_paiement cfg au uuid now pid s
       = (Reply 200 (PaiementP (p\<lparr>p_statut := Valide\<rparr>)), s')
     \<and> transactions s' = transactions s @
          [\<lparr>t_id = uuid, paiementId = p_id p, t_montant = p_montant p, t_date = now\<rparr>]
     \<and> paiements s = ys @ p # zs \<and> (\<forall>y\<in>set ys. \<not> same_id (p_id y) pid)
     \<and> paiements s' = ys @ p\<lparr>p_statut := Valide\<rparr> # zs"
proof -
  from update_first_split[OF assms(3), of "\<lambda>x. x\<lparr>p_statut := Valide\<rparr>"]
  obtain ys zs where h: "paiements s = ys @ p # zs" "\<forall>y\<in>set ys. \<not> same_id (p_id y) pid"
    "update_first (\<lambda>x. same_id (p_id x) pid) (\<lambda>x. x\<lparr>p_statut := Valide\<rparr>) (paiements s)
       = ys @ p\<lparr>p_statut := Valide\<rparr> # zs" by blast
  show ?thesis
    using valider_paiement_found[OF assms(1-3), of uuid now] h by auto
qed

text \<open>The theorem at the store that holds one pending payment of 100.\<close>

theorem valider_paiement_pending_witness:
  "adminAuth cfg0 admin_key \<and> truthy (JStr (js ''p-1''))
   \<and> find (\<lambda>x. same_id (p_id x) (JStr (js ''p-1''))) (paiements paid) = Some pay1
   \<and> p_statut pay1 = En_attente
   \<and> transactions paid = []
   \<and> transactions (snd (valider_paiement cfg0 admin_key (js ''t-1'') t1 (JStr (js ''p-1'')) paid))
       = [\<lparr>t_id = (js ''t-1''), paiementId = (js ''p-1''), t_montant = JsonNum 100, t_date = t1\<rparr>]
   \<and> paiements (snd (valider_paiement cfg0 admin_key (js ''t-1'') t1 (JStr (js ''p-1'')) paid))
       = [pay1\<lparr>p_statut := Valide\<rparr>]"
proof -
  have h1: "adminAuth cfg0 admin_key" by code_simp
  have h2: "truthy (JStr (js ''p-1''))" by code_simp
  have h3: "find (\<lambda>x. same_id (p_id x) (JStr (js ''p-1''))) (paiements paid) = Some pay1"
    by code_simp
  have h4: "p_statut pay1 = En_attente" by (simp add: pay1_def)
  have h5: "transactions paid = []" by code_simp
  have h6: "paiements paid = [pay1]" by code_simp
  from valider_paiement_pending[OF h1 h2 h3 h4, of "(js ''t-1'')" t1]
  obtain s' ys zs where r:
    "valider_paiement cfg0 admin_key (js ''t-1'') t1 (JStr (js ''p-1'')) paid
       = (Reply 200 (PaiementP (pay1\<lparr>p_statut := Valide\<rparr>)), s')"
    "transactions s' = transactions paid @
          [\<lparr>t_id = (js ''t-1''), paiementId = p_id pay1, t_montant = p_montant pay1, t_date = t1\<rparr>]"
    "paiements paid = ys @ pay1 # zs"
    "paiements s' = ys @ pay1\<lparr>p_statut := Valide\<rparr> # zs" by blast
  from r(3) h6 have "ys = [] \<and> zs = []" by (cases ys) auto
  with r h1 h2 h3 h4 h5 show ?thesis by (simp add: pay1_def)
qed

subsection \<open>C6: the public list\<close>

text \<open>
  Claim C6. After any sequence of requests, from any store, \<open>GET /api/maisons\<close>
  answers with the listings whose status is \<open>valide\<close>, all of them and only them, in
  the order of the collection, and changes nothing.
\<close>

theorem get_maisons_only_valide:
  "\<exists>L. get_maisons (run cfg reqs s0) = (Reply 200 (MaisonsP L), run cfg reqs s0)
     \<and> L = filter (\<lambda>m. m_statut m = Valide) (maisons (run cfg reqs s0))
     \<and> (\<forall>m\<in>set L. m_statut m = Valide)
     \<and> (\<forall>m\<in>set (maisons (run cfg reqs s0)). m_statut m = Valide \<longrightarrow> m \<in> set L)
     \<and> subseq L (maisons (run cfg reqs s0))"
  by (simp add: get_maisons_def)

text \<open>
  The theorem after four listings were created, all validated, one of them refused and
  another deleted.
\<close>

theorem get_maisons_only_valide_witness:
  "map (\<lambda>m. (m_id m, m_statut m)) (maisons (run cfg0 three_listings init_store))
     = [((js ''m-1''), Valide), ((js ''m-2''), Refuse), ((js ''m-3''), Valide)]
   \<and> (\<exists>L. get_maisons (run cfg0 three_listings init_store)
             = (Reply 200 (MaisonsP L), run cfg0 three_listings init_store)
        \<and> map m_id L = [(js ''m-1''), (js ''m-3'')] \<and> (\<forall>m\<in>set L. m_statut m = Valide))"
proof -
  have h: "map (\<lambda>m. (m_id m, m_statut m)) (maisons (run cfg0 three_listings init_store))
     = [((js ''m-1''), Valide), ((js ''m-2''), Refuse), ((js ''m-3''), Valide)]" by code_simp
  from get_maisons_only_valide[of cfg0 three_listings init_store]
  obtain L where r: "get_maisons (run cfg0 three_listings init_store)
        = (Reply 200 (MaisonsP L), run cfg0 three_listings init_store)"
     "L = filter (\<lambda>m. m_statut m = Valide) (maisons (run cfg0 three_listings init_store))"
     "\<forall>m\<in>set L. m_statut m = Valide" by blast
  have "map m_id (filter (\<lambda>m. m_statut m = Valide)
          (maisons (run cfg0 three_listings init_store))) = [(js ''m-1''), (js ''m-3'')]"
    by code_simp
  with r(2) have "map m_id L = [(js ''m-1''), (js ''m-3'')]" by simp
  with r(1,3) h show ?thesis by simp
qed

subsection \<open>C7: the price of a created listing\<close>




subsection \<open>C8: a price that is not a number\<close>




subsection \<open>C9: the statistics\<close>

text \<open>
  Claim C9 says that \<open>revenusTotaux\<close> is the sum of the amounts of the transactions.
  After payments of 0.1 and 0.2 were created and approved, the two transactions carry
  the binary64 values of 0.1 and 0.2, and \<open>revenusTotaux\<close> is the binary64 value
  nearest to their sum (0.30000000000000004), which is not their sum.
\<close>

theorem rounded_revenus_counterexample:
  "map t_montant (transactions (run cfg0 tenths init_store))
     = [JsonNum (3602879701896397 / 36028797018963968),
        JsonNum (3602879701896397 / 18014398509481984)]
   \<and> admin_stats cfg0 admin_key (run cfg0 tenths init_store)
       = (Reply 200 (StatsP \<lparr>totalMaisons = 0, totalUsers = 0, totalPaiements = 2,
                              revenusTotaux = Fin (1351079888211149 / 4503599627370496)\<rparr>),
          run cfg0 tenths init_store)
   \<and> Fin (1351079888211149 / 4503599627370496)
       \<noteq> Fin (3602879701896397 / 36028797018963968 + 3602879701896397 / 18014398509481984)"
  by code_simp

text \<open>
  Claim C9, amended. An authorised \<open>GET /api/admin/stats\<close> returns the store as it
  found it, in every state. Its \<open>revenusTotaux\<close> is what adding the amounts of the
  transactions gives, from the left and from 0, each addition rounded to binary64, a
  transaction without an amount counting 0; it is the sum of the amounts whenever the
  sum of every initial part of the collection is a binary64 value.
\<close>

theorem admin_stats_revenus:
  assumes "adminAuth cfg au"
  shows "\<exists>st. admin_stats cfg au s = (Reply 200 (StatsP st), s)
     \<and> revenusTotaux st
         = foldl (\<lambda>acc x. js_add acc (Fin x)) (Fin 0)
             (map (\<lambda>t. montant_value (t_montant t)) (transactions s))
     \<and> ((\<forall>k\<le>length (transactions s).
            representable (sum_list (map (\<lambda>t. montant_value (t_montant t))
                                      (take k (transactions s)))))
         \<longrightarrow> revenusTotaux st
               = Fin (sum_list (map (\<lambda>t. montant_value (t_montant t)) (transactions s))))"
proof -
  let ?xs = "map (\<lambda>t. montant_value (t_montant t)) (transactions s)"
  have exact: "(\<forall>k\<le>length (transactions s).
            representable (sum_list (map (\<lambda>t. montant_value (t_montant t))
                                      (take k (transactions s)))))
     \<longrightarrow> foldl (\<lambda>acc x. js_add acc (Fin x)) (Fin 0) ?xs = Fin (sum_list ?xs)"
  proof
    assume a: "\<forall>k\<le>length (transactions s).
            representable (sum_list (map (\<lambda>t. montant_value (t_montant t))
                                      (take k (transactions s))))"
    have "\<forall>k\<le>length ?xs. representable (0 + sum_list (take k ?xs))"
      using a by (simp add: take_map)
    from foldl_js_add_exact[OF this] show
      "foldl (\<lambda>acc x. js_add acc (Fin x)) (Fin 0) ?xs = Fin (sum_list ?xs)" by simp
  qed
  from assms have "admin_stats cfg au s
      = (Reply 200 (StatsP \<lparr>totalMaisons = length (maisons s),
                             totalUsers = length (utilisateurs s),
                             totalPaiements = length (paiements s),
                             revenusTotaux = foldl (\<lambda>acc x. js_add acc (Fin x)) (Fin 0) ?xs\<rparr>), s)"
    by (simp add: admin_stats_def foldl_montants)
  with exact show ?thesis by simp
qed

text \<open>
  The amended statement after three payments (of 100, of 250.5 and of an amount that is
  not a number) were created and approved, and the first one refused afterwards.
\<close>

theorem admin_stats_revenus_witness:
  "adminAuth cfg0 admin_key
   \<and> map t_montant (transactions (run cfg0 two_payments init_store))
       = [JsonNum 100, JsonNum (501 / 2), JsonNull]
   \<and> representable 0 \<and> representable 100 \<and> representable (701 / 2)
   \<and> (\<exists>st. admin_stats cfg0 admin_key (run cfg0 two_payments init_store)
             = (Reply 200 (StatsP st), run cfg0 two_payments init_store)
         \<and> revenusTotaux st = Fin (701 / 2))"
proof -
  let ?s = "run cfg0 two_payments init_store"
  have h: "adminAuth cfg0 admin_key" by code_simp
  have m: "map t_montant (transactions ?s) = [JsonNum 100, JsonNum (501 / 2), JsonNull]"
    by code_simp
  have r0: "representable 0" by code_simp
  have r1: "representable 100" by code_simp
  have r2: "representable (701 / 2)" by code_simp
  have v: "map (\<lambda>t. montant_value (t_montant t)) (transactions ?s) = [100, 501 / 2, 0]"
  proof -
    have "map (\<lambda>t. montant_value (t_montant t)) (transactions ?s)
        = map montant_value (map t_montant (transactions ?s))" by (simp add: comp_def)
    then show ?thesis by (simp add: m montant_value_def)
  qed
  have len: "length (transactions ?s) = 3" using arg_cong[OF m, of length] by simp
  have parts: "\<forall>k\<le>length (transactions ?s).
            representable (sum_list (map (\<lambda>t. montant_value (t_montant t))
                                      (take k (transactions ?s))))"
  proof (intro allI impI)
    fix k assume "k \<le> length (transactions ?s)"
    with len have "k = 0 \<or> k = 1 \<or> k = 2 \<or> k = 3" by auto
    moreover have "map (\<lambda>t. montant_value (t_montant t)) (take k (transactions ?s))
        = take k [100, 501 / 2, 0]" by (metis v take_map)
    ultimately show "representable (sum_list (map (\<lambda>t. montant_value (t_montant t))
                                      (take k (transactions ?s))))"
      using r0 r1 r2 by (auto simp add: numeral_2_eq_2 numeral_3_eq_3)
  qed
  from admin_stats_revenus[OF h, of ?s] parts v
  obtain st where "admin_stats cfg0 admin_key ?s = (Reply 200 (StatsP st), ?s)"
    "revenusTotaux st = Fin (sum_list [100, 501 / 2, 0])" by auto
  then have "\<exists>st. admin_stats cfg0 admin_key ?s = (Reply 200 (StatsP st), ?s)
         \<and> revenusTotaux st = Fin (701 / 2)" by auto
  with h m r0 r1 r2 show ?thesis by blast
qed

subsection \<open>C10: deleting a user that is not there\<close>



end
